theory Spec2Isabelle
  imports Main "HOL-Library.Sublist" "HOL-Library.Word"
begin

section \<open>The upload page: data model\<close>

text \<open>
  The development embeds \<^verbatim>\<open>src/web/src/pages/mainPage.tsx\<close>: the four
  \<^verbatim>\<open>useState\<close> cells of \<^verbatim>\<open>MainPage\<close>, the \<^verbatim>\<open>useEffect\<close> cleanup, and the three
  handlers \<^verbatim>\<open>handleFileUpload\<close>, \<^verbatim>\<open>clearFile\<close> and \<^verbatim>\<open>sendToBackend\<close>.

  What the handlers do to the outside (object URLs, \<^verbatim>\<open>fetch\<close>, the console) is kept
  in the same record as the component state, as a log of calls in the order they happen.
\<close>

subsection \<open>Files, object URLs, form data\<close>

text \<open>A browser \<^verbatim>\<open>File\<close>: its \<^verbatim>\<open>name\<close>, its \<^verbatim>\<open>type\<close> (the media type the handlers
  test) and its content, which travels in the request body; \<^verbatim>\<open>size\<close> is the length of
  the content.\<close>

record File =
  file_name :: string
  file_type :: string
  file_bytes :: "8 word list"

text \<open>
  The string that \<^verbatim>\<open>URL.createObjectURL\<close> returns. The browser makes a new, non-empty
  \<^verbatim>\<open>blob:\<close> string at every call; the number stands for the unique part. Since the
  string is never empty, the test \<^verbatim>\<open>if (previewUrl)\<close> is the test against \<^verbatim>\<open>null\<close>.
\<close>

datatype url = ObjectURL nat

datatype form_value = FileValue File | StringValue string

type_synonym FormData = "(string \<times> form_value) list"

text \<open>The argument of \<^verbatim>\<open>fetch\<close>: the URL and the two options the page passes
  (\<^verbatim>\<open>method\<close> is \<open>http_method\<close> here).\<close>

record request =
  endpoint :: string
  http_method :: string
  body :: FormData

subsection \<open>JSON values and their JavaScript readings\<close>

text \<open>
  What \<^verbatim>\<open>response.json()\<close> can resolve to. A number is an IEEE double, and the page
  does two things with one: it tests it for truthiness (a number out of JSON is falsy
  exactly when it is zero) and it renders it with \<^verbatim>\<open>Number::toString\<close>. A number is kept
  as these two readings, whether it is non-zero and its rendering, so that \<^verbatim>\<open>1e21\<close> is
  \<open>JNum True ''1e+21''\<close>, \<^verbatim>\<open>0.5\<close> is \<open>JNum True ''0.5''\<close> and \<^verbatim>\<open>-0\<close> is \<open>JNum False ''0''\<close>.
  An object is its own keys with their values, in the order of the body.
\<close>

datatype json =
    JNull
  | JBool bool
  | JNum (nonZero: bool) (rendering: string)
  | JStr string
  | JArr "json list"
  | JObj "(string \<times> json) list"

text \<open>How a template literal renders the status, an integer below 65536: in decimal, most
  significant digit first.\<close>

definition digit :: "nat \<Rightarrow> char" where
  "digit d = ''0123456789'' ! d"

fun decimal :: "nat \<Rightarrow> string" where
  "decimal n = (if n < 10 then [digit n] else decimal (n div 10) @ [digit (n mod 10)])"

declare decimal.simps [simp del]

text \<open>\<^verbatim>\<open>Array.prototype.join\<close> on strings.\<close>

fun join :: "string \<Rightarrow> string list \<Rightarrow> string" where
  "join sep [] = []"
| "join sep [x] = x"
| "join sep (x # y # ys) = x @ sep @ join sep (y # ys)"

text \<open>JavaScript truthiness of a parsed value.\<close>

fun truthy :: "json \<Rightarrow> bool" where
  "truthy JNull = False"
| "truthy (JBool b) = b"
| "truthy (JNum nz s) = nz"
| "truthy (JStr s) = (s \<noteq> [])"
| "truthy (JArr xs) = True"
| "truthy (JObj kvs) = True"

text \<open>
  JavaScript \<^verbatim>\<open>ToString\<close>, which both the template literal and \<^verbatim>\<open>join\<close> apply; \<open>None\<close>
  is the \<^verbatim>\<open>TypeError\<close> it throws. An array renders as its elements joined with commas,
  from left to right, \<^verbatim>\<open>null\<close> as the empty string. An object renders through the
  \<^verbatim>\<open>toString\<close> it inherits, unless it has a key \<^verbatim>\<open>toString\<close> of its own: the value
  under it, coming out of JSON, cannot be called, \<^verbatim>\<open>valueOf\<close> gives no primitive either,
  and the conversion throws.
\<close>

fun toString :: "json \<Rightarrow> string option" where
  "toString JNull = Some ''null''"
| "toString (JBool b) = Some (if b then ''true'' else ''false'')"
| "toString (JNum nz s) = Some s"
| "toString (JStr s) = Some s"
| "toString (JArr xs) =
     map_option (join '','')
       (those (map (\<lambda>x. if x = JNull then Some [] else toString x) xs))"
| "toString (JObj kvs) =
     (if ''toString'' \<in> set (map fst kvs) then None else Some ''[object Object]'')"

text \<open>\<^verbatim>\<open>Array.prototype.join\<close> on parsed values: the same walk, with the separator given.\<close>

definition array_join :: "string \<Rightarrow> json list \<Rightarrow> string option" where
  "array_join sep xs =
     map_option (join sep)
       (those (map (\<lambda>x. if x = JNull then Some [] else toString x) xs))"

text \<open>
  Property access \<^verbatim>\<open>responseData.k\<close> on a truthy parsed value: \<open>None\<close> is
  \<^verbatim>\<open>undefined\<close>. Of a repeated key, \<^verbatim>\<open>JSON.parse\<close> keeps the last occurrence; a value
  that is not an object has none of the four keys the page reads.
\<close>

fun get_field :: "string \<Rightarrow> json \<Rightarrow> json option" where
  "get_field k (JObj kvs) = map_of (rev kvs) k"
| "get_field k _ = None"

subsection \<open>Responses and thrown values\<close>

text \<open>A settled \<^verbatim>\<open>Response\<close>: the status is an unsigned 16-bit number, and
  \<open>json_body = None\<close> when \<^verbatim>\<open>response.json()\<close> rejects.\<close>

record response =
  status :: "16 word"
  statusText :: string
  json_body :: "json option"

text \<open>\<^verbatim>\<open>Response.ok\<close> is the getter of the Fetch standard: a status from 200 to 299.\<close>

definition ok :: "response \<Rightarrow> bool" where
  "ok r = (200 \<le> status r \<and> status r \<le> 299)"

text \<open>
  A thrown value, as far as the \<^verbatim>\<open>catch\<close> block tells values apart: an \<^verbatim>\<open>Error\<close>
  instance (with whether it is a \<^verbatim>\<open>TypeError\<close>, and its message), or anything else.
\<close>

datatype thrown = ErrorObj (isTypeError: bool) (errMessage: string) | NonError

datatype fetch_outcome = Resolves response | Rejects thrown

subsection \<open>Component state and the outside world\<close>

datatype status_type = success | error

record upload_status =
  stype :: "status_type option"
  message :: string

text \<open>Every call a handler makes out of its own body, state setters included.\<close>

datatype call =
    SetFile "File option"
  | SetPreviewUrl "url option"
  | SetIsUploading bool
  | SetUploadStatus upload_status
  | CreateObjectURL File url
  | RevokeObjectURL url
  | Fetch request
  | ConsoleLog
  | ConsoleError

text \<open>
  The four state cells (\<open>file\<close> is a keyword here, so the cell \<^verbatim>\<open>file\<close> is
  \<open>selectedFile\<close>), then what React and the browser hold: the \<^verbatim>\<open>previewUrl\<close> that
  the installed effect cleanup closed over, the object URLs that are registered, the
  counter behind fresh URLs, and the log of calls. The last field is the engine's: the
  message of the \<^verbatim>\<open>TypeError\<close> it throws when a value has no string conversion, whose
  wording differs from engine to engine.
\<close>

record world =
  selectedFile :: "File option"
  previewUrl :: "url option"
  isUploading :: bool
  uploadStatus :: upload_status
  effectUrl :: "url option"
  liveUrls :: "url set"
  nextUrl :: nat
  calls :: "call list"
  conversionMessage :: string

definition idle :: upload_status where
  "idle = \<lparr>stype = None, message = []\<rparr>"

text \<open>The component as mounted: the initial \<^verbatim>\<open>useState\<close> values, the effect installed
  over \<^verbatim>\<open>previewUrl = null\<close>, nothing registered, nothing called; the engine's message
  in Chromium's wording.\<close>

definition mount :: world where
  "mount = \<lparr>selectedFile = None, previewUrl = None, isUploading = False, uploadStatus = idle,
            effectUrl = None, liveUrls = {}, nextUrl = 0, calls = [],
            conversionMessage = ''Cannot convert object to primitive value''\<rparr>"

definition API_BASE_URL :: string where
  "API_BASE_URL = ''/api''"

section \<open>Operations\<close>

subsection \<open>State setters, browser calls\<close>

definition setFile :: "File option \<Rightarrow> world \<Rightarrow> world" where
  "setFile v w = w\<lparr>selectedFile := v, calls := calls w @ [SetFile v]\<rparr>"

definition setPreviewUrl :: "url option \<Rightarrow> world \<Rightarrow> world" where
  "setPreviewUrl v w = w\<lparr>previewUrl := v, calls := calls w @ [SetPreviewUrl v]\<rparr>"

definition setIsUploading :: "bool \<Rightarrow> world \<Rightarrow> world" where
  "setIsUploading v w = w\<lparr>isUploading := v, calls := calls w @ [SetIsUploading v]\<rparr>"

definition setUploadStatus :: "upload_status \<Rightarrow> world \<Rightarrow> world" where
  "setUploadStatus v w = w\<lparr>uploadStatus := v, calls := calls w @ [SetUploadStatus v]\<rparr>"

text \<open>\<^verbatim>\<open>URL.createObjectURL\<close> registers a fresh URL; \<^verbatim>\<open>URL.revokeObjectURL\<close> drops its
  argument from the registered ones, and does nothing else when it is not there.\<close>

definition createObjectURL :: "File \<Rightarrow> world \<Rightarrow> url \<times> world" where
  "createObjectURL f w =
     (let u = ObjectURL (nextUrl w)
      in (u, w\<lparr>liveUrls := insert u (liveUrls w), nextUrl := Suc (nextUrl w),
                calls := calls w @ [CreateObjectURL f u]\<rparr>))"

definition revokeObjectURL :: "url \<Rightarrow> world \<Rightarrow> world" where
  "revokeObjectURL u w = w\<lparr>liveUrls := liveUrls w - {u}, calls := calls w @ [RevokeObjectURL u]\<rparr>"

definition fetch :: "request \<Rightarrow> world \<Rightarrow> world" where
  "fetch req w = w\<lparr>calls := calls w @ [Fetch req]\<rparr>"

definition console_log :: "world \<Rightarrow> world" where
  "console_log w = w\<lparr>calls := calls w @ [ConsoleLog]\<rparr>"

definition console_error :: "world \<Rightarrow> world" where
  "console_error w = w\<lparr>calls := calls w @ [ConsoleError]\<rparr>"

subsection \<open>The effect of lines 21 to 27\<close>

text \<open>
  The cleanup function that \<^verbatim>\<open>useEffect\<close> returns, over the \<^verbatim>\<open>previewUrl\<close> of the
  render that made it.
\<close>

definition effect_cleanup :: "url option \<Rightarrow> world \<Rightarrow> world" where
  "effect_cleanup captured w = (case captured of None \<Rightarrow> w | Some u \<Rightarrow> revokeObjectURL u w)"

text \<open>
  React after a handler has run: the component renders again, and since the effect
  depends on \<^verbatim>\<open>[previewUrl]\<close>, a changed \<^verbatim>\<open>previewUrl\<close> runs the cleanup of the
  effect that is installed, then installs the effect of the new render. An unchanged
  one leaves the installed effect alone.
\<close>

definition commit :: "world \<Rightarrow> world" where
  "commit w =
     (if previewUrl w = effectUrl w then w
      else (effect_cleanup (effectUrl w) w)\<lparr>effectUrl := previewUrl w\<rparr>)"

text \<open>Teardown of the component runs the cleanup of the installed effect.\<close>

definition unmount :: "world \<Rightarrow> world" where
  "unmount w = effect_cleanup (effectUrl w) w"

subsection \<open>\<^verbatim>\<open>handleFileUpload\<close> and \<^verbatim>\<open>clearFile\<close>\<close>

text \<open>The handlers read \<^verbatim>\<open>previewUrl\<close> from the render they belong to, which is the
  world they start in.\<close>

definition handleFileUpload :: "File list \<Rightarrow> world \<Rightarrow> world" where
  "handleFileUpload files w =
     (case files of
        [] \<Rightarrow> w
      | f # _ \<Rightarrow>
          let w1 = setFile (Some f) w;
              w2 = setUploadStatus idle w1;
              w3 = (case previewUrl w of None \<Rightarrow> w2 | Some u \<Rightarrow> revokeObjectURL u w2);
              (u', w4) = createObjectURL f w3;
              w5 = setPreviewUrl (Some u') w4
          in console_log w5)"

definition clearFile :: "world \<Rightarrow> world" where
  "clearFile w =
     (let w1 = (case previewUrl w of None \<Rightarrow> w | Some u \<Rightarrow> revokeObjectURL u w);
          w2 = setFile None w1;
          w3 = setPreviewUrl None w2
      in setUploadStatus idle w3)"

subsection \<open>\<^verbatim>\<open>sendToBackend\<close>\<close>

text \<open>A block that may throw: the thrown value on the left.\<close>

type_synonym 'a block = "world \<Rightarrow> (thrown + 'a) \<times> world"

text \<open>\<^verbatim>\<open>try { block } catch (e) { handler } finally { final }\<close>: the handler runs on
  what the block throws, what the handler throws goes on, and \<open>final\<close> runs either way.\<close>

definition try_catch_finally ::
  "unit block \<Rightarrow> (thrown \<Rightarrow> unit block) \<Rightarrow> (world \<Rightarrow> world) \<Rightarrow> unit block" where
  "try_catch_finally block handler final w =
     (case block w of
        (Inr x, w1) \<Rightarrow> (Inr x, final w1)
      | (Inl e, w1) \<Rightarrow> (case handler e w1 of (r, w2) \<Rightarrow> (r, final w2)))"

text \<open>Lines 67 to 86: the type check, the endpoint and the form data. Nothing here
  touches the state.\<close>

definition build_request :: "File \<Rightarrow> thrown + (request \<times> bool)" where
  "build_request f =
     (let fileType = file_type f;
          isVideo = prefix ''video/'' fileType;
          isImage = prefix ''image/'' fileType
      in if \<not> isVideo \<and> \<not> isImage
         then Inl (ErrorObj False ''Please upload a valid video or image file'')
         else
           let endpoint = (if isVideo then API_BASE_URL @ ''/arms/from_video''
                           else API_BASE_URL @ ''/arms/from_image'');
               formData = (if isVideo
                           then [(''video'', FileValue f), (''fps'', StringValue ''1''),
                                 (''seconds'', StringValue ''-1'')]
                           else [(''image'', FileValue f)])
           in Inr (\<lparr>endpoint = endpoint, http_method = ''POST'', body = formData\<rparr>, isVideo))"

text \<open>
  Lines 104 to 112: the pushes onto \<^verbatim>\<open>details\<close>. The three fields are pushed as they
  are; the frame index is pushed as the string its template literal makes, and that
  conversion may throw (\<open>None\<close>).
\<close>

definition push_if_truthy :: "string \<Rightarrow> json \<Rightarrow> json list \<Rightarrow> json list" where
  "push_if_truthy k d details =
     (case get_field k d of
        None \<Rightarrow> details
      | Some v \<Rightarrow> if truthy v then details @ [v] else details)"

definition collect_details :: "json \<Rightarrow> json list option" where
  "collect_details d =
     (let details = [];
          details = push_if_truthy ''detail'' d details;
          details = push_if_truthy ''error'' d details;
          details = push_if_truthy ''message'' d details
      in case get_field ''frame_index_in_valid_list'' d of
           None \<Rightarrow> Some details
         | Some v \<Rightarrow>
             (case toString v of
                None \<Rightarrow> None
              | Some s \<Rightarrow> Some (details @ [JStr (''Frame index: '' @ s)])))"

text \<open>
  Lines 101 to 118. \<open>responseData\<close> is \<open>JNull\<close> when the body did not parse. The result
  is \<open>None\<close> when a conversion throws, in the template literal or in \<^verbatim>\<open>join\<close>.
\<close>

definition server_error_message :: "response \<Rightarrow> json \<Rightarrow> string option" where
  "server_error_message r responseData =
     (let errorMessage = ''Server error ('' @ decimal (unat (status r)) @ ''): ''
      in if truthy responseData
         then (case collect_details responseData of
                 None \<Rightarrow> None
               | Some details \<Rightarrow>
                   if length details > 0
                   then map_option (\<lambda>joined. errorMessage @ joined) (array_join '' | '' details)
                   else Some (errorMessage @ statusText r))
         else Some (errorMessage @ statusText r))"

text \<open>Lines 88 to 128, from the point where \<^verbatim>\<open>await fetch\<close> settles. On a failure status
  the block throws either way: the \<^verbatim>\<open>Error\<close> of line 120, or the engine's \<^verbatim>\<open>TypeError\<close>
  when the message could not be built.\<close>

definition after_fetch :: "bool \<Rightarrow> fetch_outcome \<Rightarrow> unit block" where
  "after_fetch isVideo outcome w =
     (case outcome of
        Rejects e \<Rightarrow> (Inl e, w)
      | Resolves r \<Rightarrow>
          let (responseData, w1) =
                (case json_body r of None \<Rightarrow> (JNull, console_error w) | Some d \<Rightarrow> (d, w))
          in if \<not> ok r
             then (case server_error_message r responseData of
                     None \<Rightarrow> (Inl (ErrorObj True (conversionMessage w1)), w1)
                   | Some errorMessage \<Rightarrow> (Inl (ErrorObj False errorMessage), w1))
             else
               let w2 = setUploadStatus
                          \<lparr>stype = Some success,
                           message = (if isVideo then ''Video'' else ''Image'') @ '' uploaded successfully!''\<rparr> w1
               in (Inr (), console_log w2))"

text \<open>The body of the \<^verbatim>\<open>try\<close>: \<open>net\<close> is how the network settles each request.\<close>

definition try_body :: "File \<Rightarrow> (request \<Rightarrow> fetch_outcome) \<Rightarrow> unit block" where
  "try_body f net w =
     (case build_request f of
        Inl e \<Rightarrow> (Inl e, w)
      | Inr (req, isVideo) \<Rightarrow> after_fetch isVideo (net req) (fetch req w))"

text \<open>Lines 129 to 145.\<close>

definition catch_message :: "thrown \<Rightarrow> string" where
  "catch_message e =
     (case e of
        ErrorObj isType m \<Rightarrow>
          if isType \<and> m = ''Failed to fetch''
          then ''Network error: Cannot connect to the server. Check if the API is running at ''
               @ API_BASE_URL
          else m
      | NonError \<Rightarrow> ''Failed to upload file'')"

definition catch_block :: "thrown \<Rightarrow> unit block" where
  "catch_block e w =
     (let errorMessage = catch_message e;
          w1 = setUploadStatus \<lparr>stype = Some error, message = errorMessage\<rparr> w
      in (Inr (), console_error w1))"

definition finally_block :: "world \<Rightarrow> world" where
  "finally_block w = setIsUploading False w"

text \<open>Lines 54 to 149. The left of the result is a rejection of the promise that the
  \<^verbatim>\<open>async\<close> function returns.\<close>

definition sendToBackend :: "(request \<Rightarrow> fetch_outcome) \<Rightarrow> unit block" where
  "sendToBackend net w =
     (case selectedFile w of
        None \<Rightarrow>
          (Inr (), setUploadStatus \<lparr>stype = Some error, message = ''Please select a file first''\<rparr> w)
      | Some f \<Rightarrow>
          let w1 = setIsUploading True w;
              w2 = setUploadStatus idle w1
          in try_catch_finally (try_body f net) catch_block finally_block w2)"

subsection \<open>User events\<close>

text \<open>An event is a handler followed by React's commit.\<close>

datatype event = Select "File list" | Clear | Submit "request \<Rightarrow> fetch_outcome"

fun step :: "event \<Rightarrow> world \<Rightarrow> world" where
  "step (Select files) w = commit (handleFileUpload files w)"
| "step Clear w = commit (clearFile w)"
| "step (Submit net) w = commit (snd (sendToBackend net w))"

fun run :: "event list \<Rightarrow> world \<Rightarrow> world" where
  "run [] w = w"
| "run (e # es) w = run es (step e w)"

text \<open>Projections of the log.\<close>

fun revokes :: "call list \<Rightarrow> url list" where
  "revokes [] = []"
| "revokes (RevokeObjectURL u # cs) = u # revokes cs"
| "revokes (_ # cs) = revokes cs"

fun fetches :: "call list \<Rightarrow> request list" where
  "fetches [] = []"
| "fetches (Fetch r # cs) = r # fetches cs"
| "fetches (_ # cs) = fetches cs"

subsection \<open>Sample inputs\<close>

definition image_file :: File where
  "image_file = \<lparr>file_name = ''arm.png'', file_type = ''image/png'', file_bytes = [137, 80]\<rparr>"

definition video_file :: File where
  "video_file = \<lparr>file_name = ''arm.mp4'', file_type = ''video/mp4'', file_bytes = [0, 0, 1]\<rparr>"

definition text_file :: File where
  "text_file = \<lparr>file_name = ''notes.txt'', file_type = ''text/plain'', file_bytes = [104, 105]\<rparr>"

text \<open>A network on which every request settles the same way.\<close>

definition settles :: "fetch_outcome \<Rightarrow> request \<Rightarrow> fetch_outcome" where
  "settles outcome req = outcome"

definition offline :: "request \<Rightarrow> fetch_outcome" where
  "offline req = Rejects (ErrorObj True ''Failed to fetch'')"

definition bad_frame_response :: response where
  "bad_frame_response =
     \<lparr>status = 422, statusText = ''Unprocessable Entity'',
      json_body = Some (JObj [(''detail'', JStr ''bad frame'')])\<rparr>"

definition empty_detail_response :: response where
  "empty_detail_response =
     \<lparr>status = 422, statusText = ''Unprocessable Entity'',
      json_body = Some (JObj [(''detail'', JStr [])])\<rparr>"

definition ok_unparsed_response :: response where
  "ok_unparsed_response = \<lparr>status = 200, statusText = ''OK'', json_body = None\<rparr>"

text \<open>The frame index \<^verbatim>\<open>1e21\<close>, which JavaScript renders with an exponent.\<close>

definition large_index_response :: response where
  "large_index_response =
     \<lparr>status = 422, statusText = ''Unprocessable Entity'',
      json_body = Some (JObj [(''frame_index_in_valid_list'', JNum True ''1e+21'')])\<rparr>"

text \<open>A \<^verbatim>\<open>detail\<close> that is an object with a key \<^verbatim>\<open>toString\<close>.\<close>

definition unconvertible_response :: response where
  "unconvertible_response =
     \<lparr>status = 422, statusText = ''Unprocessable Entity'',
      json_body = Some (JObj [(''detail'', JObj [(''toString'', JNum True ''1'')])])\<rparr>"

subsection \<open>Observations\<close>

text \<open>The writes to the in-flight flag, in the order of the log.\<close>

fun flag_writes :: "call list \<Rightarrow> bool list" where
  "flag_writes [] = []"
| "flag_writes (SetIsUploading b # cs) = b # flag_writes cs"
| "flag_writes (_ # cs) = flag_writes cs"

text \<open>The calls that change the selection or its preview.\<close>

fun writes_selection :: "call \<Rightarrow> bool" where
  "writes_selection (SetFile v) = True"
| "writes_selection (SetPreviewUrl v) = True"
| "writes_selection (CreateObjectURL f u) = True"
| "writes_selection (RevokeObjectURL u) = True"
| "writes_selection c = False"

text \<open>The component state proper: the four cells.\<close>

definition state_of :: "world \<Rightarrow> File option \<times> url option \<times> bool \<times> upload_status" where
  "state_of w = (selectedFile w, previewUrl w, isUploading w, uploadStatus w)"

text \<open>The registered object URLs are the preview URL that is held, and the installed
  effect has closed over it.\<close>

definition preview_inv :: "world \<Rightarrow> bool" where
  "preview_inv w = (liveUrls w = set_option (previewUrl w) \<and> effectUrl w = previewUrl w)"

subsection \<open>The error details, said declaratively\<close>

text \<open>
  The details of a failure response as one expression: of \<^verbatim>\<open>detail\<close>, \<^verbatim>\<open>error\<close> and
  \<^verbatim>\<open>message\<close>, in this order, the values that are there and truthy, each rendered; then
  the frame index when the key is there, whatever its value. \<open>None\<close> when one of these
  values has no rendering.
\<close>

definition frame_index_text :: "json \<Rightarrow> string list option" where
  "frame_index_text d =
     (case get_field ''frame_index_in_valid_list'' d of
        None \<Rightarrow> Some []
      | Some v \<Rightarrow> map_option (\<lambda>s. [''Frame index: '' @ s]) (toString v))"

definition shown_fields :: "json \<Rightarrow> string list option" where
  "shown_fields d =
     (case frame_index_text d of
        None \<Rightarrow> None
      | Some frame \<Rightarrow>
          map_option (\<lambda>rendered. rendered @ frame)
            (those (map toString
               (filter truthy
                  (List.map_filter (\<lambda>k. get_field k d) [''detail'', ''error'', ''message''])))))"

text \<open>
  The reading by which a field counts as soon as its key is in the body, and the error
  message that this reading gives. These two follow the prose description of the
  response reduction, not the code; they are what the code is compared with.
\<close>

definition present_fields :: "json \<Rightarrow> string list option" where
  "present_fields d =
     (case frame_index_text d of
        None \<Rightarrow> None
      | Some frame \<Rightarrow>
          map_option (\<lambda>rendered. rendered @ frame)
            (those (map toString
               (List.map_filter (\<lambda>k. get_field k d) [''detail'', ''error'', ''message'']))))"

definition message_as_claimed :: "response \<Rightarrow> string option" where
  "message_as_claimed r =
     map_option (\<lambda>rest. ''Server error ('' @ decimal (unat (status r)) @ ''): '' @ rest)
       (case json_body r of
          None \<Rightarrow> Some (statusText r)
        | Some d \<Rightarrow>
            map_option (\<lambda>shown. if shown = [] then statusText r else join '' | '' shown)
              (present_fields d))"

section \<open>Basic facts\<close>

lemmas setter_defs = setFile_def setPreviewUrl_def setIsUploading_def setUploadStatus_def
lemmas browser_defs =
  createObjectURL_def revokeObjectURL_def fetch_def console_log_def console_error_def Let_def
lemmas handler_defs =
  handleFileUpload_def clearFile_def commit_def effect_cleanup_def unmount_def mount_def idle_def
lemmas sample_defs = image_file_def video_file_def text_file_def settles_def offline_def
lemmas submit_defs = sendToBackend_def try_catch_finally_def try_body_def after_fetch_def
  catch_block_def finally_block_def

lemma flag_writes_append [simp]: "flag_writes (xs @ ys) = flag_writes xs @ flag_writes ys"
  by (induction xs rule: flag_writes.induct) simp_all

subsection \<open>The mounted component and a first selection\<close>

lemma mount_fields:
  "selectedFile mount = None" "previewUrl mount = None" "isUploading mount = False"
  "uploadStatus mount = idle" "effectUrl mount = None" "liveUrls mount = {}"
  "nextUrl mount = 0" "calls mount = []"
  "conversionMessage mount = ''Cannot convert object to primitive value''"
  by (simp_all add: mount_def)

lemma step_select_mount:
  "commit (handleFileUpload [f] mount) =
     \<lparr>selectedFile = Some f, previewUrl = Some (ObjectURL 0), isUploading = False,
      uploadStatus = idle, effectUrl = Some (ObjectURL 0), liveUrls = {ObjectURL 0},
      nextUrl = Suc 0,
      calls = [SetFile (Some f), SetUploadStatus idle, CreateObjectURL f (ObjectURL 0),
               SetPreviewUrl (Some (ObjectURL 0)), ConsoleLog],
      conversionMessage = ''Cannot convert object to primitive value''\<rparr>"
  by (simp add: handleFileUpload_def commit_def effect_cleanup_def mount_def setter_defs browser_defs)

lemma fetches_append [simp]: "fetches (xs @ ys) = fetches xs @ fetches ys"
  by (induction xs rule: fetches.induct) simp_all

lemma revokes_append [simp]: "revokes (xs @ ys) = revokes xs @ revokes ys"
  by (induction xs rule: revokes.induct) simp_all

subsection \<open>The request that is built\<close>

lemma build_request_unsupported:
  "\<not> prefix ''video/'' (file_type f) \<Longrightarrow> \<not> prefix ''image/'' (file_type f) \<Longrightarrow>
   build_request f = Inl (ErrorObj False ''Please upload a valid video or image file'')"
  by (simp add: build_request_def)

lemma build_request_video:
  "prefix ''video/'' (file_type f) \<Longrightarrow>
   build_request f =
     Inr (\<lparr>endpoint = ''/api/arms/from_video'', http_method = ''POST'',
           body = [(''video'', FileValue f), (''fps'', StringValue ''1''),
                   (''seconds'', StringValue ''-1'')]\<rparr>, True)"
  by (simp add: build_request_def API_BASE_URL_def)

lemma build_request_image:
  "\<not> prefix ''video/'' (file_type f) \<Longrightarrow> prefix ''image/'' (file_type f) \<Longrightarrow>
   build_request f =
     Inr (\<lparr>endpoint = ''/api/arms/from_image'', http_method = ''POST'',
           body = [(''image'', FileValue f)]\<rparr>, False)"
  by (simp add: build_request_def API_BASE_URL_def)

lemma video_not_image: "prefix ''video/'' t \<Longrightarrow> \<not> prefix ''image/'' t"
  by (auto simp: prefix_def)

lemma build_request_flag:
  "build_request f = Inr (req, v) \<Longrightarrow>
     v = prefix ''video/'' (file_type f) \<and> (\<not> v \<longrightarrow> prefix ''image/'' (file_type f))"
  by (auto simp: build_request_def Let_def split: if_splits)

lemma image_request:
  "build_request image_file =
     Inr (\<lparr>endpoint = ''/api/arms/from_image'', http_method = ''POST'',
           body = [(''image'', FileValue image_file)]\<rparr>, False)"
  by (rule build_request_image) (simp_all add: image_file_def)

lemma video_request:
  "build_request video_file =
     Inr (\<lparr>endpoint = ''/api/arms/from_video'', http_method = ''POST'',
           body = [(''video'', FileValue video_file), (''fps'', StringValue ''1''),
                   (''seconds'', StringValue ''-1'')]\<rparr>, True)"
  by (rule build_request_video) (simp add: video_file_def)

lemma try_body_request:
  "build_request f = Inr (req, v) \<Longrightarrow> try_body f net w = after_fetch v (net req) (fetch req w)"
  by (simp add: try_body_def)

subsection \<open>The paths through \<^verbatim>\<open>sendToBackend\<close>\<close>

lemma sendToBackend_no_file:
  "selectedFile w = None \<Longrightarrow>
   sendToBackend net w =
     (Inr (), setUploadStatus \<lparr>stype = Some error, message = ''Please select a file first''\<rparr> w)"
  by (simp add: sendToBackend_def)

lemma sendToBackend_throws:
  assumes "selectedFile w = Some f"
    and "try_body f net (setUploadStatus idle (setIsUploading True w)) = (Inl e, w')"
  shows "sendToBackend net w =
     (Inr (), finally_block (console_error
                (setUploadStatus \<lparr>stype = Some error, message = catch_message e\<rparr> w')))"
  using assms by (simp add: sendToBackend_def try_catch_finally_def catch_block_def)

lemma sendToBackend_returns:
  assumes "selectedFile w = Some f"
    and "try_body f net (setUploadStatus idle (setIsUploading True w)) = (Inr (), w')"
  shows "sendToBackend net w = (Inr (), finally_block w')"
  using assms by (simp add: sendToBackend_def try_catch_finally_def)

subsection \<open>Network calls\<close>

lemma fetches_after_fetch [simp]:
  "fetches (calls (snd (after_fetch v outcome w))) = fetches (calls w)"
  by (simp add: after_fetch_def setter_defs browser_defs
      split: fetch_outcome.splits option.splits)

lemma fetches_catch_block [simp]: "fetches (calls (snd (catch_block e w))) = fetches (calls w)"
  by (simp add: catch_block_def setter_defs browser_defs)

lemma fetches_finally_block [simp]: "fetches (calls (finally_block w)) = fetches (calls w)"
  by (simp add: finally_block_def setter_defs)

lemma fetches_try_catch_finally:
  "fetches (calls (snd (try_catch_finally blk catch_block finally_block w))) =
   fetches (calls (snd (blk w)))"
  by (cases "blk w" rule: prod.exhaust; cases "fst (blk w)")
     (auto simp: try_catch_finally_def split: prod.splits sum.splits
       dest: arg_cong [where f = "\<lambda>p. fetches (calls (snd p))"])

lemma fetches_sendToBackend:
  assumes "selectedFile w = Some f" and "build_request f = Inr (req, v)"
  shows "fetches (calls (snd (sendToBackend net w))) = fetches (calls w) @ [req]"
  using assms
  by (simp add: sendToBackend_def fetches_try_catch_finally try_body_request fetch_def setter_defs)

section \<open>Submitting without a file\<close>

text \<open>
  Claim C3, as amended. When no file is selected, \<^verbatim>\<open>sendToBackend\<close> sets the upload
  status to an error whose message is \<^verbatim>\<open>Please select a file first\<close>; that setter call
  is the only call it makes, so no request is issued, and the in-flight flag is not
  touched.
\<close>

theorem C3_no_file:
  assumes "selectedFile w = None"
  shows "uploadStatus (snd (sendToBackend net w)) =
           \<lparr>stype = Some error, message = ''Please select a file first''\<rparr>
         \<and> calls (snd (sendToBackend net w)) =
             calls w @ [SetUploadStatus \<lparr>stype = Some error, message = ''Please select a file first''\<rparr>]
         \<and> fetches (calls (snd (sendToBackend net w))) = fetches (calls w)
         \<and> isUploading (snd (sendToBackend net w)) = isUploading w"
  using assms by (simp add: sendToBackend_no_file setUploadStatus_def)

theorem C3_no_file_witness:
  "selectedFile mount = None
   \<and> uploadStatus (snd (sendToBackend offline mount)) =
       \<lparr>stype = Some error, message = ''Please select a file first''\<rparr>
   \<and> fetches (calls (snd (sendToBackend offline mount))) = []"
  using C3_no_file [of mount offline] by (simp add: mount_def)

text \<open>The message is not the one the claim quotes.\<close>

theorem C3_counterexample:
  "selectedFile mount = None
   \<and> uploadStatus (snd (sendToBackend offline mount)) \<noteq>
       \<lparr>stype = Some error, message = ''no file selected''\<rparr>"
  by (simp add: sendToBackend_def mount_def setUploadStatus_def)

section \<open>Submitting a file that is neither image nor video\<close>

text \<open>
  Claim C7, as amended. When the selected file's media type starts with neither
  \<^verbatim>\<open>video/\<close> nor \<^verbatim>\<open>image/\<close>, \<^verbatim>\<open>sendToBackend\<close> ends with the upload status an error
  whose message is \<^verbatim>\<open>Please upload a valid video or image file\<close>, issues no request, and
  its promise is fulfilled.
\<close>

theorem C7_unsupported:
  assumes "selectedFile w = Some f"
    and "\<not> prefix ''video/'' (file_type f)" and "\<not> prefix ''image/'' (file_type f)"
  shows "uploadStatus (snd (sendToBackend net w)) =
           \<lparr>stype = Some error, message = ''Please upload a valid video or image file''\<rparr>
         \<and> fetches (calls (snd (sendToBackend net w))) = fetches (calls w)
         \<and> fst (sendToBackend net w) = Inr ()"
proof -
  let ?w2 = "setUploadStatus idle (setIsUploading True w)"
  have "try_body f net ?w2 =
          (Inl (ErrorObj False ''Please upload a valid video or image file''), ?w2)"
    using assms(2,3) by (simp add: try_body_def build_request_unsupported)
  from sendToBackend_throws [OF assms(1) this] show ?thesis
    by (simp add: finally_block_def catch_message_def setter_defs browser_defs)
qed

theorem C7_unsupported_witness:
  "selectedFile (step (Select [text_file]) mount) = Some text_file
   \<and> \<not> prefix ''video/'' (file_type text_file) \<and> \<not> prefix ''image/'' (file_type text_file)
   \<and> uploadStatus (snd (sendToBackend offline (step (Select [text_file]) mount))) =
       \<lparr>stype = Some error, message = ''Please upload a valid video or image file''\<rparr>
   \<and> fetches (calls (snd (sendToBackend offline (step (Select [text_file]) mount)))) = []"
proof -
  have sel: "selectedFile (step (Select [text_file]) mount) = Some text_file"
    and log: "fetches (calls (step (Select [text_file]) mount)) = []"
    by (simp_all add: handler_defs setter_defs browser_defs)
  have ty: "\<not> prefix ''video/'' (file_type text_file)" "\<not> prefix ''image/'' (file_type text_file)"
    by (simp_all add: text_file_def)
  show ?thesis
    using C7_unsupported [OF sel ty, of offline] sel log ty by simp
qed

theorem C7_counterexample:
  "selectedFile (step (Select [text_file]) mount) = Some text_file
   \<and> \<not> prefix ''video/'' (file_type text_file) \<and> \<not> prefix ''image/'' (file_type text_file)
   \<and> uploadStatus (snd (sendToBackend offline (step (Select [text_file]) mount))) \<noteq>
       \<lparr>stype = Some error, message = ''unsupported file type''\<rparr>"
  by (simp add: handler_defs setter_defs browser_defs sendToBackend_def try_catch_finally_def
      try_body_def build_request_def catch_block_def catch_message_def finally_block_def
      text_file_def)

section \<open>The request\<close>

text \<open>
  Claim C4. With a file selected: if its media type starts with \<^verbatim>\<open>video/\<close>, one run of
  \<^verbatim>\<open>sendToBackend\<close> adds exactly one request to those issued, a POST to
  \<^verbatim>\<open>/api/arms/from_video\<close> with the fields \<^verbatim>\<open>video\<close> (the file), \<^verbatim>\<open>fps = "1"\<close> and
  \<^verbatim>\<open>seconds = "-1"\<close>, in that order; if it starts with \<^verbatim>\<open>image/\<close>, exactly one POST to
  \<^verbatim>\<open>/api/arms/from_image\<close> with the one field \<^verbatim>\<open>image\<close> (the file). This holds however the
  network settles the request.
\<close>

theorem C4_one_post:
  assumes "selectedFile w = Some f"
  shows "(prefix ''video/'' (file_type f) \<longrightarrow>
            fetches (calls (snd (sendToBackend net w))) =
              fetches (calls w) @
              [\<lparr>endpoint = ''/api/arms/from_video'', http_method = ''POST'',
                body = [(''video'', FileValue f), (''fps'', StringValue ''1''),
                        (''seconds'', StringValue ''-1'')]\<rparr>])
       \<and> (prefix ''image/'' (file_type f) \<longrightarrow>
            fetches (calls (snd (sendToBackend net w))) =
              fetches (calls w) @
              [\<lparr>endpoint = ''/api/arms/from_image'', http_method = ''POST'',
                body = [(''image'', FileValue f)]\<rparr>])"
proof (intro conjI impI)
  assume "prefix ''video/'' (file_type f)"
  from fetches_sendToBackend [OF assms build_request_video [OF this]]
  show "fetches (calls (snd (sendToBackend net w))) =
          fetches (calls w) @
          [\<lparr>endpoint = ''/api/arms/from_video'', http_method = ''POST'',
            body = [(''video'', FileValue f), (''fps'', StringValue ''1''),
                    (''seconds'', StringValue ''-1'')]\<rparr>]" .
next
  assume img: "prefix ''image/'' (file_type f)"
  then have "\<not> prefix ''video/'' (file_type f)"
    using video_not_image by blast
  from fetches_sendToBackend [OF assms build_request_image [OF this img]]
  show "fetches (calls (snd (sendToBackend net w))) =
          fetches (calls w) @
          [\<lparr>endpoint = ''/api/arms/from_image'', http_method = ''POST'',
            body = [(''image'', FileValue f)]\<rparr>]" .
qed

theorem C4_one_post_witness:
  "selectedFile (step (Select [video_file]) mount) = Some video_file
   \<and> prefix ''video/'' (file_type video_file)
   \<and> fetches (calls (snd (sendToBackend offline (step (Select [video_file]) mount)))) =
       [\<lparr>endpoint = ''/api/arms/from_video'', http_method = ''POST'',
         body = [(''video'', FileValue video_file), (''fps'', StringValue ''1''),
                 (''seconds'', StringValue ''-1'')]\<rparr>]
   \<and> selectedFile (step (Select [image_file]) mount) = Some image_file
   \<and> prefix ''image/'' (file_type image_file)
   \<and> fetches (calls (snd (sendToBackend offline (step (Select [image_file]) mount)))) =
       [\<lparr>endpoint = ''/api/arms/from_image'', http_method = ''POST'',
         body = [(''image'', FileValue image_file)]\<rparr>]"
proof -
  have v: "selectedFile (step (Select [video_file]) mount) = Some video_file"
    and i: "selectedFile (step (Select [image_file]) mount) = Some image_file"
    by (simp_all add: handler_defs setter_defs browser_defs)
  have cv: "fetches (calls (step (Select [video_file]) mount)) = []"
    and ci: "fetches (calls (step (Select [image_file]) mount)) = []"
    by (simp_all add: handler_defs setter_defs browser_defs)
  have pv: "prefix ''video/'' (file_type video_file)"
    and pi: "prefix ''image/'' (file_type image_file)"
    by (simp_all add: sample_defs)
  show ?thesis
    using C4_one_post [OF v, of offline] C4_one_post [OF i, of offline] v i cv ci pv pi by simp
qed

section \<open>The promise of \<^verbatim>\<open>sendToBackend\<close> and what is thrown inside\<close>




lemma uploadStatus_after_throw:
  assumes "selectedFile w = Some f"
    and "try_body f net (setUploadStatus idle (setIsUploading True w)) = (Inl e, w')"
  shows "uploadStatus (snd (sendToBackend net w)) =
           \<lparr>stype = Some error, message = catch_message e\<rparr>"
  using sendToBackend_throws [OF assms]
  by (simp add: finally_block_def setter_defs browser_defs)




section \<open>A success response\<close>

lemma try_body_resolves_ok:
  assumes "build_request f = Inr (req, v)" and "net req = Resolves r" and "ok r"
  shows "try_body f net w =
     (Inr (), console_log (setUploadStatus
        \<lparr>stype = Some success,
         message = (if v then ''Video'' else ''Image'') @ '' uploaded successfully!''\<rparr>
        (case json_body r of None \<Rightarrow> console_error (fetch req w) | Some d \<Rightarrow> fetch req w)))"
  using assms by (simp add: try_body_def after_fetch_def split: option.splits)

text \<open>
  Claim C8. With a supported file selected and its request answered with a status from
  200 to 299, the upload status ends as a success whose message is
  \<^verbatim>\<open>Video uploaded successfully!\<close> when the media type starts with \<^verbatim>\<open>video/\<close> and
  \<^verbatim>\<open>Image uploaded successfully!\<close> otherwise (the type then starts with \<^verbatim>\<open>image/\<close>). This
  does not depend on the body: when the body does not parse, the run logs one
  \<^verbatim>\<open>console.error\<close> after the request and goes on to the same success.
\<close>

theorem C8_success:
  assumes "selectedFile w = Some f" and "build_request f = Inr (req, v)"
    and "net req = Resolves r" and "ok r"
  shows "uploadStatus (snd (sendToBackend net w)) =
           \<lparr>stype = Some success,
            message = (if prefix ''video/'' (file_type f) then ''Video'' else ''Image'')
                      @ '' uploaded successfully!''\<rparr>
       \<and> (\<not> prefix ''video/'' (file_type f) \<longrightarrow> prefix ''image/'' (file_type f))
       \<and> fst (sendToBackend net w) = Inr ()
       \<and> (json_body r = None \<longrightarrow>
            calls (snd (sendToBackend net w)) =
              calls w @ [SetIsUploading True, SetUploadStatus idle, Fetch req, ConsoleError,
                         SetUploadStatus (uploadStatus (snd (sendToBackend net w))),
                         ConsoleLog, SetIsUploading False])"
proof -
  note flag = build_request_flag [OF assms(2)]
  from sendToBackend_returns [OF assms(1) try_body_resolves_ok [where net = net, OF assms(2-4)]] flag
  show ?thesis
    by (simp add: finally_block_def setter_defs browser_defs split: option.splits)
qed

theorem C8_success_witness:
  "selectedFile (step (Select [video_file]) mount) = Some video_file
   \<and> ok ok_unparsed_response \<and> json_body ok_unparsed_response = None
   \<and> uploadStatus (snd (sendToBackend (settles (Resolves ok_unparsed_response))
                          (step (Select [video_file]) mount))) =
       \<lparr>stype = Some success, message = ''Video uploaded successfully!''\<rparr>
   \<and> uploadStatus (snd (sendToBackend (settles (Resolves ok_unparsed_response))
                          (step (Select [image_file]) mount))) =
       \<lparr>stype = Some success, message = ''Image uploaded successfully!''\<rparr>"
proof -
  let ?vreq = "\<lparr>endpoint = ''/api/arms/from_video'', http_method = ''POST'',
           body = [(''video'', FileValue video_file), (''fps'', StringValue ''1''),
                   (''seconds'', StringValue ''-1'')]\<rparr>"
  let ?ireq = "\<lparr>endpoint = ''/api/arms/from_image'', http_method = ''POST'',
               body = [(''image'', FileValue image_file)]\<rparr>"
  have v: "selectedFile (step (Select [video_file]) mount) = Some video_file"
    and i: "selectedFile (step (Select [image_file]) mount) = Some image_file"
    by (simp_all add: step_select_mount)
  have nv: "settles (Resolves ok_unparsed_response) ?vreq = Resolves ok_unparsed_response"
    and ni: "settles (Resolves ok_unparsed_response) ?ireq = Resolves ok_unparsed_response"
    by (simp_all add: settles_def)
  have good: "ok ok_unparsed_response" and unparsed: "json_body ok_unparsed_response = None"
    by (simp_all add: ok_def ok_unparsed_response_def)
  show ?thesis
    using C8_success [where net = "settles (Resolves ok_unparsed_response)", OF v video_request nv good]
      C8_success [where net = "settles (Resolves ok_unparsed_response)", OF i image_request ni good]
      v good unparsed
    by (simp add: video_file_def image_file_def)
qed

section \<open>A failure response\<close>

lemma those_append_Some: "those (xs @ map Some ys) = map_option (\<lambda>zs. zs @ ys) (those xs)"
proof (induction xs)
  case Nil
  show ?case by (induction ys) simp_all
next
  case (Cons x xs)
  then show ?case
    by (cases x; cases "those xs") simp_all
qed

lemma those_length: "those xs = Some ys \<Longrightarrow> length ys = length xs"
proof (induction xs arbitrary: ys)
  case Nil
  then show ?case by simp
next
  case (Cons x xs)
  then show ?case
    by (cases x; cases "those xs") auto
qed

lemma truthy_not_null: "truthy x \<Longrightarrow> x \<noteq> JNull"
  by (cases x) simp_all

lemma array_join_details:
  assumes "\<forall>x \<in> set vals. truthy x"
  shows "array_join sep (vals @ map JStr frame) =
           map_option (\<lambda>rendered. join sep (rendered @ frame)) (those (map toString vals))"
proof -
  have eq: "map (\<lambda>x. if x = JNull then Some [] else toString x) (vals @ map JStr frame) =
              map toString vals @ map Some frame"
    using assms by (auto dest: truthy_not_null)
  show ?thesis
    unfolding array_join_def eq
    by (simp add: those_append_Some option.map_comp comp_def)
qed

lemma joined_details:
  assumes "\<forall>x \<in> set vals. truthy x"
  shows "(if length (vals @ map JStr frame) > 0
          then map_option (\<lambda>joined. pre @ joined) (array_join sep (vals @ map JStr frame))
          else Some (pre @ st)) =
         map_option (\<lambda>shown. pre @ (if shown = [] then st else join sep shown))
           (map_option (\<lambda>rendered. rendered @ frame) (those (map toString vals)))"
proof (cases "those (map toString vals)")
  case None
  then have "vals \<noteq> []"
    by auto
  then show ?thesis
    using None by (simp add: array_join_details [OF assms])
next
  case (Some rendered)
  have "length rendered = length vals"
    using those_length [OF Some] by simp
  then have "rendered @ frame = [] \<longleftrightarrow> vals = [] \<and> frame = []"
    by auto
  then show ?thesis
    using Some by (simp add: array_join_details [OF assms])
qed

lemma collect_details_shown:
  "collect_details d =
     map_option
       (\<lambda>frame. filter truthy
                   (List.map_filter (\<lambda>k. get_field k d) [''detail'', ''error'', ''message''])
                 @ map JStr frame)
       (frame_index_text d)"
  by (simp add: collect_details_def frame_index_text_def push_if_truthy_def map_filter_simps
      Let_def split: option.splits)

lemma shown_fields_falsy: "\<not> truthy d \<Longrightarrow> shown_fields d = Some []"
  by (cases d) (simp_all add: shown_fields_def frame_index_text_def map_filter_simps)

lemma frame_index_text_truthy: "frame_index_text d = None \<Longrightarrow> truthy d"
  by (cases d) (simp_all add: frame_index_text_def)

lemma server_error_message_shown:
  "server_error_message r d =
     map_option
       (\<lambda>shown. ''Server error ('' @ decimal (unat (status r)) @ ''): '' @
                 (if shown = [] then statusText r else join '' | '' shown))
       (shown_fields d)"
proof (cases "truthy d")
  case False
  then show ?thesis
    by (simp add: server_error_message_def shown_fields_falsy)
next
  case True
  show ?thesis
  proof (cases "frame_index_text d")
    case None
    then show ?thesis
      using True by (simp add: server_error_message_def collect_details_shown shown_fields_def)
  next
    case (Some frame)
    define vals where
      "vals = filter truthy
                (List.map_filter (\<lambda>k. get_field k d) [''detail'', ''error'', ''message''])"
    define pre where "pre = ''Server error ('' @ decimal (unat (status r)) @ ''): ''"
    have all: "\<forall>x \<in> set vals. truthy x"
      by (simp add: vals_def)
    have collected: "collect_details d = Some (vals @ map JStr frame)"
      unfolding vals_def collect_details_shown Some by simp
    have shown: "shown_fields d =
                   map_option (\<lambda>rendered. rendered @ frame) (those (map toString vals))"
      unfolding vals_def shown_fields_def Some by simp
    have "server_error_message r d =
            (if length (vals @ map JStr frame) > 0
             then map_option (\<lambda>joined. pre @ joined) (array_join '' | '' (vals @ map JStr frame))
             else Some (pre @ statusText r))"
      unfolding server_error_message_def Let_def collected pre_def using True by simp
    also have "\<dots> = map_option (\<lambda>shown. pre @ (if shown = [] then statusText r else join '' | '' shown))
                       (shown_fields d)"
      unfolding shown by (rule joined_details [OF all])
    finally show ?thesis
      by (simp add: pre_def)
  qed
qed

lemma conversionMessage_prelude [simp]:
  "conversionMessage (setUploadStatus s (setIsUploading b w)) = conversionMessage w"
  by (simp add: setter_defs)

lemma try_body_resolves_failure:
  assumes "build_request f = Inr (req, v)" and "net req = Resolves r" and "\<not> ok r"
  shows "\<exists>w'. try_body f net w =
     (Inl (case server_error_message r (case json_body r of None \<Rightarrow> JNull | Some d \<Rightarrow> d) of
             None \<Rightarrow> ErrorObj True (conversionMessage w)
           | Some errorMessage \<Rightarrow> ErrorObj False errorMessage), w')"
  using assms
  by (simp add: try_body_def after_fetch_def browser_defs split: option.splits)

text \<open>
  Claim C5, as amended. With a supported file selected and its request answered with a
  status outside 200 to 299, the upload status ends as an error. The details of the
  response are, in this order, the values of \<^verbatim>\<open>detail\<close>, \<^verbatim>\<open>error\<close> and \<^verbatim>\<open>message\<close> that
  are in the parsed body and truthy (not empty, not \<^verbatim>\<open>null\<close>, not zero, not \<^verbatim>\<open>false\<close>),
  each as JavaScript converts it to a string, then \<^verbatim>\<open>Frame index: <value>\<close> when the key
  \<^verbatim>\<open>frame_index_in_valid_list\<close> is in the body. When all of them convert, the message is
  \<^verbatim>\<open>Server error (<status>): \<close> followed by the details joined with \<^verbatim>\<open> | \<close>, or by the
  status text when there is no detail or the body does not parse. When one of them does
  not convert (an object with a key \<^verbatim>\<open>toString\<close> of its own, by itself or inside arrays),
  the conversion throws, and the message is what the catch block makes of the engine's
  \<^verbatim>\<open>TypeError\<close>: its own message, without the prefix.
\<close>

theorem C5_server_error:
  assumes "selectedFile w = Some f" and "build_request f = Inr (req, v)"
    and "net req = Resolves r" and "\<not> ok r"
  shows "uploadStatus (snd (sendToBackend net w)) =
           \<lparr>stype = Some error,
            message =
              (case shown_fields (case json_body r of None \<Rightarrow> JNull | Some d \<Rightarrow> d) of
                 Some shown \<Rightarrow>
                   ''Server error ('' @ decimal (unat (status r)) @ ''): '' @
                   (if shown = [] then statusText r else join '' | '' shown)
               | None \<Rightarrow>
                   if conversionMessage w = ''Failed to fetch''
                   then ''Network error: Cannot connect to the server. Check if the API is running at /api''
                   else conversionMessage w)\<rparr>"
proof -
  let ?d = "case json_body r of None \<Rightarrow> JNull | Some d \<Rightarrow> d"
  have "\<exists>w'. try_body f net (setUploadStatus idle (setIsUploading True w)) =
       (Inl (case server_error_message r ?d of
               None \<Rightarrow> ErrorObj True (conversionMessage w)
             | Some errorMessage \<Rightarrow> ErrorObj False errorMessage), w')"
    using try_body_resolves_failure [where net = net
        and w = "setUploadStatus idle (setIsUploading True w)", OF assms(2-4)]
    unfolding conversionMessage_prelude .
  then obtain w' where
    "try_body f net (setUploadStatus idle (setIsUploading True w)) =
       (Inl (case server_error_message r ?d of
               None \<Rightarrow> ErrorObj True (conversionMessage w)
             | Some errorMessage \<Rightarrow> ErrorObj False errorMessage), w')"
    by blast
  from uploadStatus_after_throw [OF assms(1) this] show ?thesis
    by (cases "shown_fields ?d")
       (simp_all add: catch_message_def server_error_message_shown API_BASE_URL_def)
qed

text \<open>
  The 422 response with \<^verbatim>\<open>{"detail": "bad frame"}\<close>; one with the frame index \<^verbatim>\<open>1e21\<close>;
  one whose \<^verbatim>\<open>detail\<close> is an object with a key \<^verbatim>\<open>toString\<close>.
\<close>

theorem C5_server_error_witness:
  "selectedFile (step (Select [image_file]) mount) = Some image_file
   \<and> \<not> ok bad_frame_response \<and> \<not> ok large_index_response \<and> \<not> ok unconvertible_response
   \<and> uploadStatus (snd (sendToBackend (settles (Resolves bad_frame_response))
                          (step (Select [image_file]) mount))) =
       \<lparr>stype = Some error, message = ''Server error (422): bad frame''\<rparr>
   \<and> uploadStatus (snd (sendToBackend (settles (Resolves large_index_response))
                          (step (Select [image_file]) mount))) =
       \<lparr>stype = Some error, message = ''Server error (422): Frame index: 1e+21''\<rparr>
   \<and> uploadStatus (snd (sendToBackend (settles (Resolves unconvertible_response))
                          (step (Select [image_file]) mount))) =
       \<lparr>stype = Some error, message = ''Cannot convert object to primitive value''\<rparr>"
proof -
  let ?req = "\<lparr>endpoint = ''/api/arms/from_image'', http_method = ''POST'',
               body = [(''image'', FileValue image_file)]\<rparr>"
  have sel: "selectedFile (step (Select [image_file]) mount) = Some image_file"
    and engine: "conversionMessage (step (Select [image_file]) mount) =
                   ''Cannot convert object to primitive value''"
    by (simp_all add: step_select_mount)
  have n1: "settles (Resolves bad_frame_response) ?req = Resolves bad_frame_response"
    and n2: "settles (Resolves large_index_response) ?req = Resolves large_index_response"
    and n3: "settles (Resolves unconvertible_response) ?req = Resolves unconvertible_response"
    by (simp_all add: settles_def)
  have bad: "\<not> ok bad_frame_response" "\<not> ok large_index_response" "\<not> ok unconvertible_response"
    by (simp_all add: ok_def bad_frame_response_def large_index_response_def
        unconvertible_response_def)
  have "uploadStatus (snd (sendToBackend (settles (Resolves bad_frame_response))
                          (step (Select [image_file]) mount))) =
       \<lparr>stype = Some error, message = ''Server error (422): bad frame''\<rparr>"
    using C5_server_error [where net = "settles (Resolves bad_frame_response)",
        OF sel image_request n1 bad(1)]
    by (simp add: bad_frame_response_def shown_fields_def frame_index_text_def map_filter_simps
        decimal.simps digit_def)
  moreover have "uploadStatus (snd (sendToBackend (settles (Resolves large_index_response))
                          (step (Select [image_file]) mount))) =
       \<lparr>stype = Some error, message = ''Server error (422): Frame index: 1e+21''\<rparr>"
    using C5_server_error [where net = "settles (Resolves large_index_response)",
        OF sel image_request n2 bad(2)]
    by (simp add: large_index_response_def shown_fields_def frame_index_text_def map_filter_simps
        decimal.simps digit_def)
  moreover have "uploadStatus (snd (sendToBackend (settles (Resolves unconvertible_response))
                          (step (Select [image_file]) mount))) =
       \<lparr>stype = Some error, message = ''Cannot convert object to primitive value''\<rparr>"
    using C5_server_error [where net = "settles (Resolves unconvertible_response)",
        OF sel image_request n3 bad(3)] engine
    by (simp add: unconvertible_response_def shown_fields_def frame_index_text_def
        map_filter_simps)
  ultimately show ?thesis
    using sel bad by blast
qed

text \<open>
  A 422 response with \<^verbatim>\<open>{"detail": ""}\<close>: the key is in the body, and the message is the
  status text all the same, where the reading by presence gives the bare prefix.
\<close>

theorem C5_counterexample:
  "selectedFile (step (Select [image_file]) mount) = Some image_file
   \<and> \<not> ok empty_detail_response
   \<and> json_body empty_detail_response = Some (JObj [(''detail'', JStr [])])
   \<and> get_field ''detail'' (JObj [(''detail'', JStr [])]) = Some (JStr [])
   \<and> message (uploadStatus (snd (sendToBackend (settles (Resolves empty_detail_response))
                                   (step (Select [image_file]) mount)))) =
       ''Server error (422): Unprocessable Entity''
   \<and> message_as_claimed empty_detail_response = Some ''Server error (422): ''"
  by (simp add: step_select_mount submit_defs setter_defs browser_defs build_request_def
      API_BASE_URL_def image_file_def settles_def empty_detail_response_def ok_def
      server_error_message_def collect_details_def push_if_truthy_def catch_message_def
      array_join_def message_as_claimed_def present_fields_def frame_index_text_def
      map_filter_simps decimal.simps digit_def)

section \<open>The in-flight flag\<close>






lemma isUploading_commit [simp]: "isUploading (commit w) = isUploading w"
  by (simp add: commit_def effect_cleanup_def browser_defs split: option.splits)





section \<open>What \<^verbatim>\<open>sendToBackend\<close> leaves alone\<close>

text \<open>
  Claim C9. On every path of \<^verbatim>\<open>sendToBackend\<close>, for every network and every state, the
  selected file and the preview URL are as before; the world after the run is the world
  before it with only the in-flight flag, the upload status and the log of calls
  changed; and the run makes no call that sets the file or the preview URL, or creates
  or revokes an object URL.
\<close>

theorem C9_frame:
  "selectedFile (snd (sendToBackend net w)) = selectedFile w
   \<and> previewUrl (snd (sendToBackend net w)) = previewUrl w
   \<and> snd (sendToBackend net w) =
       w\<lparr>isUploading := isUploading (snd (sendToBackend net w)),
         uploadStatus := uploadStatus (snd (sendToBackend net w)),
         calls := calls (snd (sendToBackend net w))\<rparr>
   \<and> filter writes_selection (calls (snd (sendToBackend net w))) =
       filter writes_selection (calls w)"
  by (simp add: submit_defs setter_defs browser_defs
      split: option.splits sum.splits prod.splits fetch_outcome.splits)

section \<open>Clearing the selection\<close>

text \<open>
  Claim C10. From any state, \<^verbatim>\<open>clearFile\<close> leaves no file, no preview URL and the idle
  status, and does not touch the in-flight flag. Clearing twice gives the same component
  state as clearing once, as a handler and as a user event, and the second call revokes
  nothing. With no preview URL, \<^verbatim>\<open>clearFile\<close> makes no revoke call; nor does the whole
  event, the effect being installed over no URL.
\<close>

theorem C10_clearFile:
  "selectedFile (clearFile w) = None
   \<and> previewUrl (clearFile w) = None
   \<and> uploadStatus (clearFile w) = idle
   \<and> isUploading (clearFile w) = isUploading w
   \<and> state_of (clearFile (clearFile w)) = state_of (clearFile w)
   \<and> state_of (step Clear (step Clear w)) = state_of (step Clear w)
   \<and> revokes (calls (clearFile (clearFile w))) = revokes (calls (clearFile w))
   \<and> liveUrls (clearFile (clearFile w)) = liveUrls (clearFile w)
   \<and> (previewUrl w = None \<longrightarrow> revokes (calls (clearFile w)) = revokes (calls w))
   \<and> (previewUrl w = None \<and> effectUrl w = None \<longrightarrow>
        revokes (calls (step Clear w)) = revokes (calls w))"
  by (simp add: clearFile_def commit_def effect_cleanup_def state_of_def setter_defs browser_defs
      split: option.splits)

theorem C10_clearFile_witness:
  "previewUrl mount = None \<and> effectUrl mount = None
   \<and> revokes (calls (clearFile mount)) = []
   \<and> revokes (calls (step Clear mount)) = []
   \<and> state_of (clearFile (clearFile (step (Select [image_file]) mount))) =
       state_of (clearFile (step (Select [image_file]) mount))
   \<and> state_of (clearFile (step (Select [image_file]) mount)) = (None, None, False, idle)"
proof -
  have "state_of (clearFile (step (Select [image_file]) mount)) = (None, None, False, idle)"
    using C10_clearFile [of "step (Select [image_file]) mount"]
    by (simp add: state_of_def step_select_mount)
  then show ?thesis
    using C10_clearFile [of mount] C10_clearFile [of "step (Select [image_file]) mount"]
    by (simp add: mount_fields)
qed

section \<open>The preview URL and its release\<close>

lemma sendToBackend_preview:
  "previewUrl (snd (sendToBackend net w)) = previewUrl w
   \<and> effectUrl (snd (sendToBackend net w)) = effectUrl w
   \<and> liveUrls (snd (sendToBackend net w)) = liveUrls w
   \<and> nextUrl (snd (sendToBackend net w)) = nextUrl w"
  by (simp add: submit_defs setter_defs browser_defs
      split: option.splits sum.splits prod.splits fetch_outcome.splits)

lemma preview_inv_mount: "preview_inv mount"
  by (simp add: preview_inv_def mount_def)

lemma preview_inv_select: "preview_inv w \<Longrightarrow> preview_inv (step (Select files) w)"
  by (cases files)
     (auto simp: preview_inv_def handleFileUpload_def commit_def effect_cleanup_def
        setter_defs browser_defs split: option.splits)

lemma preview_inv_clear: "preview_inv w \<Longrightarrow> preview_inv (step Clear w)"
  by (auto simp: preview_inv_def clearFile_def commit_def effect_cleanup_def
        setter_defs browser_defs split: option.splits)

lemma preview_inv_submit: "preview_inv w \<Longrightarrow> preview_inv (step (Submit net) w)"
  by (simp add: preview_inv_def commit_def sendToBackend_preview)

lemma preview_inv_step: "preview_inv w \<Longrightarrow> preview_inv (step e w)"
  by (cases e) (simp_all only: preview_inv_select preview_inv_clear preview_inv_submit)

lemma preview_inv_run: "preview_inv w \<Longrightarrow> preview_inv (run es w)"
  by (induction es arbitrary: w) (simp_all add: preview_inv_step)

lemma preview_inv_card: "preview_inv w \<Longrightarrow> card (liveUrls w) \<le> 1"
  by (cases "previewUrl w") (simp_all add: preview_inv_def)

lemma select_first:
  "step (Select (f # others)) mount =
     \<lparr>selectedFile = Some f, previewUrl = Some (ObjectURL 0), isUploading = False,
      uploadStatus = idle, effectUrl = Some (ObjectURL 0), liveUrls = {ObjectURL 0},
      nextUrl = Suc 0,
      calls = [SetFile (Some f), SetUploadStatus idle, CreateObjectURL f (ObjectURL 0),
               SetPreviewUrl (Some (ObjectURL 0)), ConsoleLog],
      conversionMessage = ''Cannot convert object to primitive value''\<rparr>"
  by (simp add: handleFileUpload_def commit_def effect_cleanup_def mount_def setter_defs browser_defs)

lemma select_next:
  assumes "previewUrl w = Some (ObjectURL k)" and "effectUrl w = Some (ObjectURL k)"
    and "liveUrls w = {ObjectURL k}" and "nextUrl w = Suc k" and "files \<noteq> []"
  shows "previewUrl (step (Select files) w) = Some (ObjectURL (Suc k))
       \<and> effectUrl (step (Select files) w) = Some (ObjectURL (Suc k))
       \<and> liveUrls (step (Select files) w) = {ObjectURL (Suc k)}
       \<and> nextUrl (step (Select files) w) = Suc (Suc k)
       \<and> revokes (calls (step (Select files) w)) = revokes (calls w) @ [ObjectURL k, ObjectURL k]"
  using assms
  by (cases files)
     (auto simp: handleFileUpload_def commit_def effect_cleanup_def setter_defs browser_defs)

lemma selects_from:
  assumes "previewUrl w = Some (ObjectURL k)" and "effectUrl w = Some (ObjectURL k)"
    and "liveUrls w = {ObjectURL k}" and "nextUrl w = Suc k"
    and "\<forall>files \<in> set sels. files \<noteq> []"
  shows "previewUrl (run (map Select sels) w) = Some (ObjectURL (k + length sels))
       \<and> effectUrl (run (map Select sels) w) = Some (ObjectURL (k + length sels))
       \<and> liveUrls (run (map Select sels) w) = {ObjectURL (k + length sels)}
       \<and> nextUrl (run (map Select sels) w) = Suc (k + length sels)
       \<and> revokes (calls (run (map Select sels) w)) =
           revokes (calls w) @ concat (map (\<lambda>i. [ObjectURL i, ObjectURL i]) [k..<k + length sels])"
  using assms
proof (induction sels arbitrary: w k)
  case Nil
  then show ?case by simp
next
  case (Cons files sels)
  have ne: "files \<noteq> []" and rest: "\<forall>files \<in> set sels. files \<noteq> []"
    using Cons.prems(5) by simp_all
  note one = select_next [OF Cons.prems(1-4) ne]
  have ih: "previewUrl (run (map Select sels) (step (Select files) w)) = Some (ObjectURL (Suc k + length sels))
       \<and> effectUrl (run (map Select sels) (step (Select files) w)) = Some (ObjectURL (Suc k + length sels))
       \<and> liveUrls (run (map Select sels) (step (Select files) w)) = {ObjectURL (Suc k + length sels)}
       \<and> nextUrl (run (map Select sels) (step (Select files) w)) = Suc (Suc k + length sels)
       \<and> revokes (calls (run (map Select sels) (step (Select files) w))) =
           revokes (calls (step (Select files) w))
           @ concat (map (\<lambda>i. [ObjectURL i, ObjectURL i]) [Suc k..<Suc k + length sels])"
    using Cons.IH [of "step (Select files) w" "Suc k"] one rest by blast
  have upt: "[k..<k + length (files # sels)] = k # [Suc k..<Suc k + length sels]"
    by (simp add: upt_conv_Cons del: upt_Suc)
  show ?case
    using ih one by (simp only: upt run.simps list.map) simp
qed

lemma unmount_holding:
  assumes "effectUrl w = Some u" and "liveUrls w = {u}"
  shows "revokes (calls (unmount w)) = revokes (calls w) @ [u] \<and> liveUrls (unmount w) = {}"
  using assms by (simp add: unmount_def effect_cleanup_def browser_defs)

text \<open>
  Claim C1, as amended. From the mounted component, after every sequence of user events
  (selections, clears, submissions) the registered object URLs are exactly the preview
  URL the component holds, if any: at most one. After a sequence of N selections, each
  of at least one file, the URL of the last selection is the one registered; each of the
  N - 1 superseded URLs has been revoked by two calls, one after the other (the
  handler's at line 36, then the cleanup of the effect that had closed over it), and no
  other revoke call has been made. Teardown adds one revoke call, for the last URL, and
  leaves nothing registered.
\<close>

theorem C1_preview_handles:
  assumes "\<forall>files \<in> set sels. files \<noteq> []" and "sels \<noteq> []"
  shows "(\<forall>es. card (liveUrls (run es mount)) \<le> 1
              \<and> liveUrls (run es mount) = set_option (previewUrl (run es mount)))
       \<and> previewUrl (run (map Select sels) mount) = Some (ObjectURL (length sels - 1))
       \<and> liveUrls (run (map Select sels) mount) = {ObjectURL (length sels - 1)}
       \<and> revokes (calls (run (map Select sels) mount)) =
           concat (map (\<lambda>i. [ObjectURL i, ObjectURL i]) [0..<length sels - 1])
       \<and> revokes (calls (unmount (run (map Select sels) mount))) =
           concat (map (\<lambda>i. [ObjectURL i, ObjectURL i]) [0..<length sels - 1])
           @ [ObjectURL (length sels - 1)]
       \<and> liveUrls (unmount (run (map Select sels) mount)) = {}"
proof -
  have always: "\<forall>es. card (liveUrls (run es mount)) \<le> 1
              \<and> liveUrls (run es mount) = set_option (previewUrl (run es mount))"
  proof
    fix es
    have "preview_inv (run es mount)"
      by (rule preview_inv_run) (rule preview_inv_mount)
    then show "card (liveUrls (run es mount)) \<le> 1
              \<and> liveUrls (run es mount) = set_option (previewUrl (run es mount))"
      using preview_inv_card by (simp add: preview_inv_def)
  qed
  obtain files rest where sels: "sels = files # rest"
    using assms(2) by (cases sels) auto
  obtain f others where files: "files = f # others"
    using assms(1) sels by (cases files) auto
  have rest: "\<forall>files \<in> set rest. files \<noteq> []"
    using assms(1) sels by simp
  let ?w1 = "step (Select (f # others)) mount"
  let ?w = "run (map Select sels) mount"
  have first: "previewUrl ?w1 = Some (ObjectURL 0)" "effectUrl ?w1 = Some (ObjectURL 0)"
    "liveUrls ?w1 = {ObjectURL 0}" "nextUrl ?w1 = Suc 0" "revokes (calls ?w1) = []"
    by (simp_all only: select_first) simp_all
  have split: "?w = run (map Select rest) ?w1"
    by (simp only: sels files list.map run.simps)
  have len: "length sels - 1 = length rest"
    by (simp add: sels)
  from selects_from [OF first(1-4) rest]
  have after: "previewUrl ?w = Some (ObjectURL (length sels - 1))"
    "effectUrl ?w = Some (ObjectURL (length sels - 1))"
    "liveUrls ?w = {ObjectURL (length sels - 1)}"
    "revokes (calls ?w) = concat (map (\<lambda>i. [ObjectURL i, ObjectURL i]) [0..<length sels - 1])"
    by (simp_all only: split len first(5)) simp_all
  have teardown: "revokes (calls (unmount ?w)) =
           concat (map (\<lambda>i. [ObjectURL i, ObjectURL i]) [0..<length sels - 1])
           @ [ObjectURL (length sels - 1)]"
    "liveUrls (unmount ?w) = {}"
    using unmount_holding [OF after(2,3)] by (simp_all only: after(4))
  show ?thesis
    using always after(1,3,4) teardown by blast
qed

theorem C1_preview_handles_witness:
  "revokes (calls (run (map Select [[image_file], [video_file, text_file], [text_file]]) mount)) =
       [ObjectURL 0, ObjectURL 0, ObjectURL 1, ObjectURL 1]
   \<and> revokes (calls (unmount
        (run (map Select [[image_file], [video_file, text_file], [text_file]]) mount))) =
       [ObjectURL 0, ObjectURL 0, ObjectURL 1, ObjectURL 1, ObjectURL 2]
   \<and> liveUrls (run (map Select [[image_file], [video_file, text_file], [text_file]]) mount) =
       {ObjectURL 2}
   \<and> liveUrls (unmount
        (run (map Select [[image_file], [video_file, text_file], [text_file]]) mount)) = {}"
proof -
  have ne: "\<forall>files \<in> set [[image_file], [video_file, text_file], [text_file]]. files \<noteq> []"
    and some: "[[image_file], [video_file, text_file], [text_file]] \<noteq> []"
    by simp_all
  show ?thesis
    using C1_preview_handles [OF ne some]
    by (simp add: numeral_2_eq_2)
qed

text \<open>Two selections: the superseded URL is revoked twice, and with teardown the log
  holds three revoke calls.\<close>

theorem C1_counterexample:
  "revokes (calls (run [Select [image_file], Select [video_file]] mount)) =
     [ObjectURL 0, ObjectURL 0]
   \<and> count_list (revokes (calls (run [Select [image_file], Select [video_file]] mount)))
       (ObjectURL 0) = 2
   \<and> revokes (calls (unmount (run [Select [image_file], Select [video_file]] mount))) =
       [ObjectURL 0, ObjectURL 0, ObjectURL 1]"
  by (simp add: handleFileUpload_def commit_def effect_cleanup_def unmount_def mount_def
      setter_defs browser_defs)

end
